theory Spec2Isabelle
  imports Main "HOL-Library.Word" "HOL-Library.Signed_Division"
begin

section \<open>The plaintext transport of plaintext_zephyr.c\<close>

text \<open>
  The file implements four operations over a raw stream socket:
  \<open>Plaintext_Connect\<close>, \<open>Plaintext_Disconnect\<close>, \<open>Plaintext_Recv\<close> and
  \<open>Plaintext_Send\<close>. Each of them is embedded below as a function on an explicit
  machine state. Everything the file calls but does not define (the socket layer, the
  select/recv/send primitives, errno) is a parameter of the model, and every call the
  file makes to one of them is recorded, with its arguments, in a trace of events.
\<close>

subsection \<open>C types\<close>

text \<open>
  \<open>int32_t\<close> and \<open>uint32_t\<close> are 32-bit words; a comparison of signed values is
  written with \<open><s\<close> (the order of \<open>sint\<close>), one of unsigned values with \<open><\<close>.
  The headers that declare \<open>size_t\<close> and \<open>ssize_t\<close> are not part of the file;
  both are taken at 32 bits, their width on the 32-bit targets of the port, and the cast
  \<open>( int32_t )\<close> the file applies to the result of recv and send is written out as
  \<open>scast\<close>.
\<close>

type_synonym int32 = "32 word"
type_synonym u32 = "32 word"
type_synonym size_t = "32 word"
type_synonym ssize_t = "32 word"

text \<open>Addresses of objects; a pointer is an \<open>addr option\<close>, with \<open>None\<close> for NULL.\<close>

type_synonym addr = nat

text \<open>
  Modelled from the spec: \<open>SocketStatus_t\<close> is declared in the header of the socket
  layer, which is not part of the file. The two enumerators the file names (success and
  the invalid-parameter status) are constructors; every other status the socket layer
  may produce is \<open>SOCKETS_OTHER\<close> with its number.
\<close>

datatype SocketStatus = SOCKETS_SUCCESS | SOCKETS_INVALID_PARAMETER | SOCKETS_OTHER nat

text \<open>
  Modelled from the spec: \<open>PlaintextParams_t\<close> is declared in plaintext_zephyr.h, which
  is not part of the file; the only member the file reads is \<open>socketDescriptor\<close>, the
  opaque socket handle of the connection.
\<close>

record PlaintextParams =
  socketDescriptor :: int32

text \<open>\<open>struct NetworkContext\<close>, as the file defines it.\<close>

record NetworkContext =
  pParams :: "addr option"

text \<open>
  \<open>struct timeval\<close>: the members hold the values the file computes in
  \<open>int64_t\<close> arithmetic, kept as integers.
\<close>

record timeval =
  tv_sec :: int
  tv_usec :: int

text \<open>
  Modelled from the spec: \<open>fd_set\<close> with the macros \<open>ZSOCK_FD_ZERO\<close> and
  \<open>ZSOCK_FD_SET\<close> comes from the socket header of the platform, which is not part of
  the file. A descriptor set is the set of descriptors to poll; the file builds the set
  that holds exactly the one descriptor of the connection.
\<close>

type_synonym fd_set = "int32 set"

definition ZSOCK_FD_ZERO :: fd_set where
  "ZSOCK_FD_ZERO = {}"

definition ZSOCK_FD_SET :: "int32 \<Rightarrow> fd_set \<Rightarrow> fd_set" where
  "ZSOCK_FD_SET fd fds = insert fd fds"

text \<open>
  The argument \<open>&pPlaintextParams->socketDescriptor\<close> of \<open>Sockets_Connect\<close>: the
  address of the descriptor member of the parameter block at the given address.
\<close>

datatype sock_ptr = SocketDescriptorOf addr

subsection \<open>Events, collaborators and the machine state\<close>

text \<open>
  One event for each call that leaves the file: the logging macro \<open>LogError\<close> with its
  format string and arguments, and the five routines of the socket layer with the
  arguments they are given (pointer arguments as addresses, absent descriptor sets as
  \<open>None\<close>).
\<close>

datatype event =
    EvLogError string "int32 list"
  | EvSockets_Connect sock_ptr "addr option" u32 u32
  | EvSockets_Disconnect int32
  | Ev_zsock_select int32 "fd_set option" "fd_set option" "fd_set option" timeval
  | Ev_zsock_recv int32 addr size_t int32
  | Ev_zsock_send int32 addr size_t int32

text \<open>
  The collaborators, over a world \<open>'w\<close> of their own (the network, the socket table,
  the bytes of the caller's buffers, errno). \<open>Sockets_Connect\<close> is given the
  descriptor currently stored behind its first argument and returns the one stored
  there when it returns; all others get the descriptor by value.
\<close>

record 'w collab =
  Sockets_Connect :: "'w \<Rightarrow> int32 \<Rightarrow> addr option \<Rightarrow> u32 \<Rightarrow> u32 \<Rightarrow> SocketStatus \<times> int32 \<times> 'w"
  Sockets_Disconnect :: "'w \<Rightarrow> int32 \<Rightarrow> SocketStatus \<times> 'w"
  zsock_select :: "'w \<Rightarrow> int32 \<Rightarrow> fd_set option \<Rightarrow> fd_set option \<Rightarrow> fd_set option \<Rightarrow> timeval
                    \<Rightarrow> int32 \<times> 'w"
  zsock_recv :: "'w \<Rightarrow> int32 \<Rightarrow> addr \<Rightarrow> size_t \<Rightarrow> int32 \<Rightarrow> ssize_t \<times> 'w"
  zsock_send :: "'w \<Rightarrow> int32 \<Rightarrow> addr \<Rightarrow> size_t \<Rightarrow> int32 \<Rightarrow> ssize_t \<times> 'w"
  errno :: "'w \<Rightarrow> int32"

text \<open>
  The machine: the caller-owned network contexts and parameter blocks (typed objects,
  by address), the collaborators' world, and the trace of events so far, oldest first.
\<close>

record 'w machine =
  contexts :: "addr \<Rightarrow> NetworkContext"
  params :: "addr \<Rightarrow> PlaintextParams"
  world :: 'w
  trace :: "event list"

text \<open>A failed \<open>assert\<close> aborts the call.\<close>

datatype error = AssertionFailed

definition emit :: "event \<Rightarrow> 'w machine \<Rightarrow> 'w machine" where
  "emit e s = s\<lparr>trace := trace s @ [e]\<rparr>"

definition LogError :: "string \<Rightarrow> int32 list \<Rightarrow> 'w machine \<Rightarrow> 'w machine" where
  "LogError fmt args s = emit (EvLogError fmt args) s"

text \<open>Calls of the collaborators: the event, then the effect on the world.\<close>

definition call_Sockets_Connect ::
  "'w collab \<Rightarrow> sock_ptr \<Rightarrow> addr option \<Rightarrow> u32 \<Rightarrow> u32 \<Rightarrow> 'w machine \<Rightarrow> SocketStatus \<times> 'w machine" where
  "call_Sockets_Connect c pTcpSocket pServerInfo sendTimeoutMs recvTimeoutMs s =
     (case pTcpSocket of SocketDescriptorOf a \<Rightarrow>
        (case Sockets_Connect c (world s) (socketDescriptor (params s a)) pServerInfo
                sendTimeoutMs recvTimeoutMs of
           (status, fd, w) \<Rightarrow>
             (status,
              (emit (EvSockets_Connect pTcpSocket pServerInfo sendTimeoutMs recvTimeoutMs) s)
                \<lparr>params := (params s)(a := (params s a)\<lparr>socketDescriptor := fd\<rparr>),
                 world := w\<rparr>)))"

definition call_Sockets_Disconnect ::
  "'w collab \<Rightarrow> int32 \<Rightarrow> 'w machine \<Rightarrow> SocketStatus \<times> 'w machine" where
  "call_Sockets_Disconnect c tcpSocket s =
     (case Sockets_Disconnect c (world s) tcpSocket of
        (status, w) \<Rightarrow> (status, (emit (EvSockets_Disconnect tcpSocket) s)\<lparr>world := w\<rparr>))"

definition call_zsock_select ::
  "'w collab \<Rightarrow> int32 \<Rightarrow> fd_set option \<Rightarrow> fd_set option \<Rightarrow> fd_set option \<Rightarrow> timeval
     \<Rightarrow> 'w machine \<Rightarrow> int32 \<times> 'w machine" where
  "call_zsock_select c nfds readfds writefds exceptfds timeout s =
     (case zsock_select c (world s) nfds readfds writefds exceptfds timeout of
        (r, w) \<Rightarrow>
          (r, (emit (Ev_zsock_select nfds readfds writefds exceptfds timeout) s)\<lparr>world := w\<rparr>))"

definition call_zsock_recv ::
  "'w collab \<Rightarrow> int32 \<Rightarrow> addr \<Rightarrow> size_t \<Rightarrow> int32 \<Rightarrow> 'w machine \<Rightarrow> ssize_t \<times> 'w machine" where
  "call_zsock_recv c sock buf max_len flags s =
     (case zsock_recv c (world s) sock buf max_len flags of
        (r, w) \<Rightarrow> (r, (emit (Ev_zsock_recv sock buf max_len flags) s)\<lparr>world := w\<rparr>))"

definition call_zsock_send ::
  "'w collab \<Rightarrow> int32 \<Rightarrow> addr \<Rightarrow> size_t \<Rightarrow> int32 \<Rightarrow> 'w machine \<Rightarrow> ssize_t \<times> 'w machine" where
  "call_zsock_send c sock buf len flags s =
     (case zsock_send c (world s) sock buf len flags of
        (r, w) \<Rightarrow> (r, (emit (Ev_zsock_send sock buf len flags) s)\<lparr>world := w\<rparr>))"

subsection \<open>The functions of the file\<close>

definition ONE_SEC_TO_MS :: int where
  "ONE_SEC_TO_MS = 1000"

definition ONE_MS_TO_US :: int where
  "ONE_MS_TO_US = 1000"

definition logTransportError :: "int32 \<Rightarrow> 'w machine \<Rightarrow> 'w machine" where
  "logTransportError errorNumber s =
     LogError ''A transport error occurred: %d.'' [errorNumber] s"

definition Plaintext_Connect ::
  "'w collab \<Rightarrow> addr option \<Rightarrow> addr option \<Rightarrow> u32 \<Rightarrow> u32 \<Rightarrow> 'w machine
     \<Rightarrow> SocketStatus \<times> 'w machine" where
  "Plaintext_Connect c pNetworkContext pServerInfo sendTimeoutMs recvTimeoutMs s =
     (case pNetworkContext of
        None \<Rightarrow>
          (SOCKETS_INVALID_PARAMETER,
           LogError ''Parameter check failed: pNetworkContext is NULL.'' [] s)
      | Some ctx \<Rightarrow>
          (case pParams (contexts s ctx) of
             None \<Rightarrow>
               (SOCKETS_INVALID_PARAMETER,
                LogError ''Parameter check failed: pNetworkContext is NULL.'' [] s)
           | Some pPlaintextParams \<Rightarrow>
               call_Sockets_Connect c (SocketDescriptorOf pPlaintextParams) pServerInfo
                 sendTimeoutMs recvTimeoutMs s))"

definition Plaintext_Disconnect ::
  "'w collab \<Rightarrow> addr option \<Rightarrow> 'w machine \<Rightarrow> SocketStatus \<times> 'w machine" where
  "Plaintext_Disconnect c pNetworkContext s =
     (case pNetworkContext of
        None \<Rightarrow>
          (SOCKETS_INVALID_PARAMETER,
           LogError ''Parameter check failed: pNetworkContext is NULL.'' [] s)
      | Some ctx \<Rightarrow>
          (case pParams (contexts s ctx) of
             None \<Rightarrow>
               (SOCKETS_INVALID_PARAMETER,
                LogError ''Parameter check failed: pNetworkContext is NULL.'' [] s)
           | Some pPlaintextParams \<Rightarrow>
               call_Sockets_Disconnect c (socketDescriptor (params s pPlaintextParams)) s))"

text \<open>
  \<open>Plaintext_Recv\<close>: the three assertions, the 500 ms budget, the select on the read
  set, the read when the descriptor is ready, and the final classification. The last
  \<open>if\<close> / \<open>else if\<close> of the source is the last \<open>if\<close> here: the peer-closed branch
  and the logging branch exclude each other.
\<close>

definition Plaintext_Recv ::
  "'w collab \<Rightarrow> addr option \<Rightarrow> addr option \<Rightarrow> size_t \<Rightarrow> 'w machine
     \<Rightarrow> error + (int32 \<times> 'w machine)" where
  "Plaintext_Recv c pNetworkContext pBuffer bytesToRecv s =
     (case pNetworkContext of
        None \<Rightarrow> Inl AssertionFailed
      | Some ctx \<Rightarrow>
     (case pParams (contexts s ctx) of
        None \<Rightarrow> Inl AssertionFailed
      | Some pPlaintextParams \<Rightarrow>
     (case pBuffer of
        None \<Rightarrow> Inl AssertionFailed
      | Some buf \<Rightarrow>
     if \<not> 0 < bytesToRecv then Inl AssertionFailed
     else
       let recvTimeout = \<lparr>tv_sec = 500 sdiv ONE_SEC_TO_MS,
                          tv_usec = ONE_MS_TO_US * (500 smod ONE_SEC_TO_MS)\<rparr>;
           readfds = ZSOCK_FD_SET (socketDescriptor (params s pPlaintextParams)) ZSOCK_FD_ZERO
       in
       (case call_zsock_select c (socketDescriptor (params s pPlaintextParams) + 1)
               (Some readfds) None None recvTimeout s of
          (selectStatus, s1) \<Rightarrow>
       (case (if 0 <s selectStatus
              then (case call_zsock_recv c (socketDescriptor (params s1 pPlaintextParams))
                           buf bytesToRecv 0 s1 of
                      (r, s2) \<Rightarrow> (scast r, s2))
              else if selectStatus <s 0 then (- 1, s1)
              else (0, s1)) of
          (bytesReceived, s2) \<Rightarrow>
            if 0 <s selectStatus \<and> bytesReceived = 0 then Inr (- 1, s2)
            else if bytesReceived <s 0
              then Inr (bytesReceived, logTransportError (errno c (world s2)) s2)
            else Inr (bytesReceived, s2))))))"

text \<open>\<open>Plaintext_Send\<close>: the same steps on the write set and with send.\<close>

definition Plaintext_Send ::
  "'w collab \<Rightarrow> addr option \<Rightarrow> addr option \<Rightarrow> size_t \<Rightarrow> 'w machine
     \<Rightarrow> error + (int32 \<times> 'w machine)" where
  "Plaintext_Send c pNetworkContext pBuffer bytesToSend s =
     (case pNetworkContext of
        None \<Rightarrow> Inl AssertionFailed
      | Some ctx \<Rightarrow>
     (case pParams (contexts s ctx) of
        None \<Rightarrow> Inl AssertionFailed
      | Some pPlaintextParams \<Rightarrow>
     (case pBuffer of
        None \<Rightarrow> Inl AssertionFailed
      | Some buf \<Rightarrow>
     if \<not> 0 < bytesToSend then Inl AssertionFailed
     else
       let sendTimeout = \<lparr>tv_sec = 500 sdiv ONE_SEC_TO_MS,
                          tv_usec = ONE_MS_TO_US * (500 smod ONE_SEC_TO_MS)\<rparr>;
           writefds = ZSOCK_FD_SET (socketDescriptor (params s pPlaintextParams)) ZSOCK_FD_ZERO
       in
       (case call_zsock_select c (socketDescriptor (params s pPlaintextParams) + 1)
               None (Some writefds) None sendTimeout s of
          (selectStatus, s1) \<Rightarrow>
       (case (if 0 <s selectStatus
              then (case call_zsock_send c (socketDescriptor (params s1 pPlaintextParams))
                           buf bytesToSend 0 s1 of
                      (r, s2) \<Rightarrow> (scast r, s2))
              else if selectStatus <s 0 then (- 1, s1)
              else (0, s1)) of
          (bytesSent, s2) \<Rightarrow>
            if 0 <s selectStatus \<and> bytesSent = 0 then Inr (- 1, s2)
            else if bytesSent <s 0
              then Inr (bytesSent, logTransportError (errno c (world s2)) s2)
            else Inr (bytesSent, s2))))))"

subsection \<open>Observing a call\<close>

text \<open>
  The events a call appends: those of the trace after the call that were not there
  before it. \<open>returned\<close> is the value a call of receive or send returns (or the
  failed assertion), \<open>events_of\<close> the events it appends (none when an assertion
  stops it before its first call). \<open>log_entries\<close> keeps the calls of the logging
  macro, \<open>io_attempts\<close> the calls of recv and send, \<open>socket_calls\<close> every call
  of the socket layer, and \<open>select_budgets\<close> the timeouts handed to select.
\<close>

definition new_events :: "'w machine \<Rightarrow> 'w machine \<Rightarrow> event list" where
  "new_events s s' = drop (length (trace s)) (trace s')"

definition returned :: "error + (int32 \<times> 'w machine) \<Rightarrow> error + int32" where
  "returned res = map_sum id fst res"

definition events_of :: "'w machine \<Rightarrow> error + (int32 \<times> 'w machine) \<Rightarrow> event list" where
  "events_of s res = (case res of Inl e \<Rightarrow> [] | Inr (r, s') \<Rightarrow> new_events s s')"

fun is_log :: "event \<Rightarrow> bool" where
  "is_log (EvLogError fmt args) = True"
| "is_log e = False"

fun is_io :: "event \<Rightarrow> bool" where
  "is_io (Ev_zsock_recv sock buf n flags) = True"
| "is_io (Ev_zsock_send sock buf n flags) = True"
| "is_io e = False"

fun is_socket_call :: "event \<Rightarrow> bool" where
  "is_socket_call (EvLogError fmt args) = False"
| "is_socket_call e = True"

definition log_entries :: "event list \<Rightarrow> event list" where
  "log_entries evs = filter is_log evs"

definition io_attempts :: "event list \<Rightarrow> event list" where
  "io_attempts evs = filter is_io evs"

definition socket_calls :: "event list \<Rightarrow> event list" where
  "socket_calls evs = filter is_socket_call evs"

fun select_budgets :: "event list \<Rightarrow> timeval list" where
  "select_budgets [] = []"
| "select_budgets (Ev_zsock_select nfds r w e t # evs) = t # select_budgets evs"
| "select_budgets (ev # evs) = select_budgets evs"

text \<open>The events of the select, recv and send calls the file makes on descriptor \<open>fd\<close>.\<close>

definition poll_readable :: "int32 \<Rightarrow> event" where
  "poll_readable fd =
     Ev_zsock_select (fd + 1) (Some {fd}) None None \<lparr>tv_sec = 0, tv_usec = 500000\<rparr>"

definition poll_writable :: "int32 \<Rightarrow> event" where
  "poll_writable fd =
     Ev_zsock_select (fd + 1) None (Some {fd}) None \<lparr>tv_sec = 0, tv_usec = 500000\<rparr>"

definition transport_error_entry :: "int32 \<Rightarrow> event" where
  "transport_error_entry e = EvLogError ''A transport error occurred: %d.'' [e]"

subsection \<open>Send as the mirror image of receive\<close>

text \<open>
  The specification of send, in its own words: receive, with writability substituted
  for readability and write substituted for read. \<open>mirror_collab\<close> presents the
  write side of the collaborators as a read side (a poll of a read set is answered by
  the poll of the same set as write set, a read by the write), \<open>mirror_event\<close> renames
  the events back, and \<open>Send_as_mirrored_Recv\<close> runs \<open>Plaintext_Recv\<close> between the two.
\<close>

definition mirror_collab :: "'w collab \<Rightarrow> 'w collab" where
  "mirror_collab c =
     c\<lparr>zsock_select := (\<lambda>w nfds readfds writefds exceptfds timeout.
                          zsock_select c w nfds writefds readfds exceptfds timeout),
       zsock_recv := zsock_send c,
       zsock_send := zsock_recv c\<rparr>"

fun mirror_event :: "event \<Rightarrow> event" where
  "mirror_event (Ev_zsock_select nfds r w e t) = Ev_zsock_select nfds w r e t"
| "mirror_event (Ev_zsock_recv sock buf n flags) = Ev_zsock_send sock buf n flags"
| "mirror_event (Ev_zsock_send sock buf n flags) = Ev_zsock_recv sock buf n flags"
| "mirror_event e = e"

definition Send_as_mirrored_Recv ::
  "'w collab \<Rightarrow> addr option \<Rightarrow> addr option \<Rightarrow> size_t \<Rightarrow> 'w machine
     \<Rightarrow> error + (int32 \<times> 'w machine)" where
  "Send_as_mirrored_Recv c pNetworkContext pBuffer bytesToSend s =
     (case Plaintext_Recv (mirror_collab c) pNetworkContext pBuffer bytesToSend s of
        Inl e \<Rightarrow> Inl e
      | Inr (r, s') \<Rightarrow> Inr (r, s'\<lparr>trace := trace s @ map mirror_event (new_events s s')\<rparr>))"

subsection \<open>A concrete collaborator and machine\<close>

text \<open>
  A socket layer whose select always answers \<open>sel\<close> and whose recv and send always
  answer \<open>io\<close>; its world counts the calls made to it, connecting stores descriptor 5,
  and errno reads 104. In \<open>sample_machine\<close> the context at address 1 points to the
  parameter block at address 2, every other context has a NULL parameter block, and
  every parameter block holds descriptor 3.
\<close>

definition scripted_collab :: "int32 \<Rightarrow> ssize_t \<Rightarrow> nat collab" where
  "scripted_collab sel io =
     \<lparr>Sockets_Connect = (\<lambda>w fd pServerInfo sendTimeoutMs recvTimeoutMs. (SOCKETS_SUCCESS, 5, Suc w)),
      Sockets_Disconnect = (\<lambda>w fd. (SOCKETS_SUCCESS, Suc w)),
      zsock_select = (\<lambda>w nfds readfds writefds exceptfds timeout. (sel, Suc w)),
      zsock_recv = (\<lambda>w sock buf max_len flags. (io, Suc w)),
      zsock_send = (\<lambda>w sock buf len flags. (io, Suc w)),
      errno = (\<lambda>w. 104)\<rparr>"

definition sample_machine :: "nat machine" where
  "sample_machine =
     \<lparr>contexts = (\<lambda>a. \<lparr>pParams = (if a = 1 then Some 2 else None)\<rparr>),
      params = (\<lambda>a. \<lparr>socketDescriptor = 3\<rparr>),
      world = 0,
      trace = []\<rparr>"

section \<open>Properties\<close>

subsection \<open>The wait budget\<close>

lemma wait_budget:
  "500 sdiv ONE_SEC_TO_MS = 0" "ONE_MS_TO_US * (500 smod ONE_SEC_TO_MS) = 500000"
  by (simp_all add: ONE_SEC_TO_MS_def ONE_MS_TO_US_def signed_divide_int_def
      signed_modulo_int_def)

lemmas transport_defs =
  call_zsock_select_def call_zsock_recv_def call_zsock_send_def emit_def ZSOCK_FD_SET_def
  ZSOCK_FD_ZERO_def logTransportError_def LogError_def Let_def wait_budget poll_readable_def
  poll_writable_def transport_error_entry_def

subsection \<open>Receive, branch by branch\<close>

text \<open>
  Each lemma fixes the answers of the collaborators to the calls the function makes and
  gives the value returned and the machine after the call.
\<close>

lemma Plaintext_Recv_timeout:
  assumes "pNetworkContext = Some ctx" and "pParams (contexts s ctx) = Some pp"
    and "pBuffer = Some buf" and "0 < n"
    and "fd = socketDescriptor (params s pp)"
    and "zsock_select c (world s) (fd + 1) (Some {fd}) None None
           \<lparr>tv_sec = 0, tv_usec = 500000\<rparr> = (0, w1)"
  shows "Plaintext_Recv c pNetworkContext pBuffer n s =
           Inr (0, s\<lparr>world := w1, trace := trace s @ [poll_readable fd]\<rparr>)"
  using assms by (simp add: Plaintext_Recv_def transport_defs)

lemma Plaintext_Recv_poll_error:
  assumes "pNetworkContext = Some ctx" and "pParams (contexts s ctx) = Some pp"
    and "pBuffer = Some buf" and "0 < n"
    and "fd = socketDescriptor (params s pp)"
    and "zsock_select c (world s) (fd + 1) (Some {fd}) None None
           \<lparr>tv_sec = 0, tv_usec = 500000\<rparr> = (sel, w1)"
    and "sel <s 0"
  shows "Plaintext_Recv c pNetworkContext pBuffer n s =
           Inr (- 1, s\<lparr>world := w1,
                       trace := trace s @ [poll_readable fd, transport_error_entry (errno c w1)]\<rparr>)"
  using assms by (auto simp add: Plaintext_Recv_def transport_defs word_sless_alt)

lemma Plaintext_Recv_ready_zero:
  assumes "pNetworkContext = Some ctx" and "pParams (contexts s ctx) = Some pp"
    and "pBuffer = Some buf" and "0 < n"
    and "fd = socketDescriptor (params s pp)"
    and "zsock_select c (world s) (fd + 1) (Some {fd}) None None
           \<lparr>tv_sec = 0, tv_usec = 500000\<rparr> = (sel, w1)"
    and "0 <s sel"
    and "zsock_recv c w1 fd buf n 0 = (0, w2)"
  shows "Plaintext_Recv c pNetworkContext pBuffer n s =
           Inr (- 1, s\<lparr>world := w2,
                       trace := trace s @ [poll_readable fd, Ev_zsock_recv fd buf n 0]\<rparr>)"
  using assms by (simp add: Plaintext_Recv_def transport_defs)

lemma Plaintext_Recv_ready_positive:
  assumes "pNetworkContext = Some ctx" and "pParams (contexts s ctx) = Some pp"
    and "pBuffer = Some buf" and "0 < n"
    and "fd = socketDescriptor (params s pp)"
    and "zsock_select c (world s) (fd + 1) (Some {fd}) None None
           \<lparr>tv_sec = 0, tv_usec = 500000\<rparr> = (sel, w1)"
    and "0 <s sel"
    and "zsock_recv c w1 fd buf n 0 = (r, w2)"
    and "0 <s r"
  shows "Plaintext_Recv c pNetworkContext pBuffer n s =
           Inr (r, s\<lparr>world := w2,
                      trace := trace s @ [poll_readable fd, Ev_zsock_recv fd buf n 0]\<rparr>)"
  using assms by (auto simp add: Plaintext_Recv_def transport_defs word_sless_alt)

lemma Plaintext_Recv_ready_negative:
  assumes "pNetworkContext = Some ctx" and "pParams (contexts s ctx) = Some pp"
    and "pBuffer = Some buf" and "0 < n"
    and "fd = socketDescriptor (params s pp)"
    and "zsock_select c (world s) (fd + 1) (Some {fd}) None None
           \<lparr>tv_sec = 0, tv_usec = 500000\<rparr> = (sel, w1)"
    and "0 <s sel"
    and "zsock_recv c w1 fd buf n 0 = (r, w2)"
    and "r <s 0"
  shows "Plaintext_Recv c pNetworkContext pBuffer n s =
           Inr (r, s\<lparr>world := w2,
                      trace := trace s @ [poll_readable fd, Ev_zsock_recv fd buf n 0,
                                          transport_error_entry (errno c w2)]\<rparr>)"
  using assms by (auto simp add: Plaintext_Recv_def transport_defs word_sless_alt)

subsection \<open>Send, branch by branch\<close>

lemma Plaintext_Send_timeout:
  assumes "pNetworkContext = Some ctx" and "pParams (contexts s ctx) = Some pp"
    and "pBuffer = Some buf" and "0 < n"
    and "fd = socketDescriptor (params s pp)"
    and "zsock_select c (world s) (fd + 1) None (Some {fd}) None
           \<lparr>tv_sec = 0, tv_usec = 500000\<rparr> = (0, w1)"
  shows "Plaintext_Send c pNetworkContext pBuffer n s =
           Inr (0, s\<lparr>world := w1, trace := trace s @ [poll_writable fd]\<rparr>)"
  using assms by (simp add: Plaintext_Send_def transport_defs)

lemma Plaintext_Send_poll_error:
  assumes "pNetworkContext = Some ctx" and "pParams (contexts s ctx) = Some pp"
    and "pBuffer = Some buf" and "0 < n"
    and "fd = socketDescriptor (params s pp)"
    and "zsock_select c (world s) (fd + 1) None (Some {fd}) None
           \<lparr>tv_sec = 0, tv_usec = 500000\<rparr> = (sel, w1)"
    and "sel <s 0"
  shows "Plaintext_Send c pNetworkContext pBuffer n s =
           Inr (- 1, s\<lparr>world := w1,
                       trace := trace s @ [poll_writable fd, transport_error_entry (errno c w1)]\<rparr>)"
  using assms by (auto simp add: Plaintext_Send_def transport_defs word_sless_alt)

subsection \<open>Every call polls once, with the same budget, and keeps the caller's objects\<close>

lemma Plaintext_Recv_returns:
  assumes "pNetworkContext = Some ctx" and "pParams (contexts s ctx) = Some pp"
    and "pBuffer = Some buf" and "0 < n"
  shows "\<exists>r s'. Plaintext_Recv c pNetworkContext pBuffer n s = Inr (r, s')
           \<and> contexts s' = contexts s \<and> params s' = params s
           \<and> select_budgets (new_events s s') = [\<lparr>tv_sec = 0, tv_usec = 500000\<rparr>]"
  using assms
  by (auto simp add: Plaintext_Recv_def transport_defs new_events_def split: prod.splits)

lemma Plaintext_Send_returns:
  assumes "pNetworkContext = Some ctx" and "pParams (contexts s ctx) = Some pp"
    and "pBuffer = Some buf" and "0 < n"
  shows "\<exists>r s'. Plaintext_Send c pNetworkContext pBuffer n s = Inr (r, s')
           \<and> contexts s' = contexts s \<and> params s' = params s
           \<and> select_budgets (new_events s s') = [\<lparr>tv_sec = 0, tv_usec = 500000\<rparr>]"
  using assms
  by (auto simp add: Plaintext_Send_def transport_defs new_events_def split: prod.splits)

lemma Plaintext_Connect_contexts:
  "contexts (snd (Plaintext_Connect c pNetworkContext pServerInfo sendTimeoutMs recvTimeoutMs s))
     = contexts s"
  by (simp add: Plaintext_Connect_def call_Sockets_Connect_def LogError_def emit_def
      split: option.splits prod.splits)

lemma Plaintext_Disconnect_frame:
  "contexts (snd (Plaintext_Disconnect c pNetworkContext s)) = contexts s
   \<and> params (snd (Plaintext_Disconnect c pNetworkContext s)) = params s"
  by (simp add: Plaintext_Disconnect_def call_Sockets_Disconnect_def LogError_def emit_def
      split: option.splits prod.splits)

subsection \<open>The concrete collaborator and machine, evaluated\<close>

lemma sample_context: "pParams (contexts sample_machine 1) = Some 2"
  by (simp add: sample_machine_def)

lemma sample_null_params: "pParams (contexts sample_machine 0) = None"
  by (simp add: sample_machine_def)

lemma sample_descriptor: "3 = socketDescriptor (params sample_machine 2)"
  by (simp add: sample_machine_def)

lemma sample_length: "(0 :: size_t) < 16"
  by simp

lemma scripted_select:
  "zsock_select (scripted_collab sel io) w nfds readfds writefds exceptfds timeout = (sel, Suc w)"
  by (simp add: scripted_collab_def)

lemma scripted_recv: "zsock_recv (scripted_collab sel io) w sock buf n flags = (io, Suc w)"
  by (simp add: scripted_collab_def)

lemma scripted_send: "zsock_send (scripted_collab sel io) w sock buf n flags = (io, Suc w)"
  by (simp add: scripted_collab_def)

lemma scripted_connect:
  "Sockets_Connect (scripted_collab sel io) w fd pServerInfo sendTimeoutMs recvTimeoutMs
     = (SOCKETS_SUCCESS, 5, Suc w)"
  by (simp add: scripted_collab_def)

lemma scripted_errno: "errno (scripted_collab sel io) w = 104"
  by (simp add: scripted_collab_def)

lemma sample_poll_readable:
  "zsock_select (scripted_collab sel io) (world sample_machine) (3 + 1) (Some {3}) None None
     \<lparr>tv_sec = 0, tv_usec = 500000\<rparr> = (sel, 1)"
  by (simp add: scripted_select sample_machine_def)

lemma sample_poll_writable:
  "zsock_select (scripted_collab sel io) (world sample_machine) (3 + 1) None (Some {3}) None
     \<lparr>tv_sec = 0, tv_usec = 500000\<rparr> = (sel, 1)"
  by (simp add: scripted_select sample_machine_def)

lemma sample_read: "zsock_recv (scripted_collab sel io) 1 3 9 16 0 = (io, 2)"
  by (simp add: scripted_recv)

lemma one_is_positive: "(0 :: int32) <s 1"
  by (simp add: word_sless_alt)

lemma minus_one_is_negative: "(- 1 :: int32) <s 0"
  by (simp add: word_sless_alt)

lemma seven_is_positive: "(0 :: int32) <s 7"
  by (simp add: word_sless_alt)

subsection \<open>Send: the remaining branches, the mirror image and the two tables\<close>

lemma Plaintext_Send_ready_zero:
  assumes "pNetworkContext = Some ctx" and "pParams (contexts s ctx) = Some pp"
    and "pBuffer = Some buf" and "0 < n"
    and "fd = socketDescriptor (params s pp)"
    and "zsock_select c (world s) (fd + 1) None (Some {fd}) None
           \<lparr>tv_sec = 0, tv_usec = 500000\<rparr> = (sel, w1)"
    and "0 <s sel"
    and "zsock_send c w1 fd buf n 0 = (0, w2)"
  shows "Plaintext_Send c pNetworkContext pBuffer n s =
           Inr (- 1, s\<lparr>world := w2,
                       trace := trace s @ [poll_writable fd, Ev_zsock_send fd buf n 0]\<rparr>)"
  using assms by (simp add: Plaintext_Send_def transport_defs)

lemma Plaintext_Send_ready_positive:
  assumes "pNetworkContext = Some ctx" and "pParams (contexts s ctx) = Some pp"
    and "pBuffer = Some buf" and "0 < n"
    and "fd = socketDescriptor (params s pp)"
    and "zsock_select c (world s) (fd + 1) None (Some {fd}) None
           \<lparr>tv_sec = 0, tv_usec = 500000\<rparr> = (sel, w1)"
    and "0 <s sel"
    and "zsock_send c w1 fd buf n 0 = (r, w2)"
    and "0 <s r"
  shows "Plaintext_Send c pNetworkContext pBuffer n s =
           Inr (r, s\<lparr>world := w2,
                      trace := trace s @ [poll_writable fd, Ev_zsock_send fd buf n 0]\<rparr>)"
  using assms by (auto simp add: Plaintext_Send_def transport_defs word_sless_alt)

lemma Plaintext_Send_ready_negative:
  assumes "pNetworkContext = Some ctx" and "pParams (contexts s ctx) = Some pp"
    and "pBuffer = Some buf" and "0 < n"
    and "fd = socketDescriptor (params s pp)"
    and "zsock_select c (world s) (fd + 1) None (Some {fd}) None
           \<lparr>tv_sec = 0, tv_usec = 500000\<rparr> = (sel, w1)"
    and "0 <s sel"
    and "zsock_send c w1 fd buf n 0 = (r, w2)"
    and "r <s 0"
  shows "Plaintext_Send c pNetworkContext pBuffer n s =
           Inr (r, s\<lparr>world := w2,
                      trace := trace s @ [poll_writable fd, Ev_zsock_send fd buf n 0,
                                          transport_error_entry (errno c w2)]\<rparr>)"
  using assms by (auto simp add: Plaintext_Send_def transport_defs word_sless_alt)

lemma Plaintext_Send_mirror:
  "Plaintext_Send c pNetworkContext pBuffer bytesToSend s
     = Send_as_mirrored_Recv c pNetworkContext pBuffer bytesToSend s"
  by (auto simp add: Plaintext_Send_def Send_as_mirrored_Recv_def Plaintext_Recv_def
      mirror_collab_def transport_defs new_events_def split: option.splits prod.splits)

lemma Plaintext_Send_table:
  assumes "pNetworkContext = Some ctx" and "pParams (contexts s ctx) = Some pp"
    and "pBuffer = Some buf" and "0 < n"
    and "fd = socketDescriptor (params s pp)"
    and "zsock_select c (world s) (fd + 1) None (Some {fd}) None
           \<lparr>tv_sec = 0, tv_usec = 500000\<rparr> = (sel, w1)"
    and "zsock_send c w1 fd buf n 0 = (r, w2)"
  shows "returned (Plaintext_Send c pNetworkContext pBuffer n s)
           = Inr (if 0 <s sel then (if r = 0 then - 1 else r)
                  else if sel <s 0 then - 1 else 0)"
    and "log_entries (events_of s (Plaintext_Send c pNetworkContext pBuffer n s))
           = (if 0 <s sel then (if r <s 0 then [transport_error_entry (errno c w2)] else [])
              else if sel <s 0 then [transport_error_entry (errno c w1)] else [])"
  using assms
  by (auto simp add: Plaintext_Send_def transport_defs returned_def events_of_def
      new_events_def log_entries_def word_sless_alt)

lemma Plaintext_Recv_table:
  assumes "pNetworkContext = Some ctx" and "pParams (contexts s ctx) = Some pp"
    and "pBuffer = Some buf" and "0 < n"
    and "fd = socketDescriptor (params s pp)"
    and "zsock_select c (world s) (fd + 1) (Some {fd}) None None
           \<lparr>tv_sec = 0, tv_usec = 500000\<rparr> = (sel, w1)"
    and "zsock_recv c w1 fd buf n 0 = (r, w2)"
  shows "returned (Plaintext_Recv c pNetworkContext pBuffer n s)
           = Inr (if 0 <s sel then (if r = 0 then - 1 else r)
                  else if sel <s 0 then - 1 else 0)"
    and "log_entries (events_of s (Plaintext_Recv c pNetworkContext pBuffer n s))
           = (if 0 <s sel then (if r <s 0 then [transport_error_entry (errno c w2)] else [])
              else if sel <s 0 then [transport_error_entry (errno c w1)] else [])"
  using assms
  by (auto simp add: Plaintext_Recv_def transport_defs returned_def events_of_def
      new_events_def log_entries_def word_sless_alt)

lemma sample_write: "zsock_send (scripted_collab sel io) 1 3 9 16 0 = (io, 2)"
  by (simp add: scripted_send)

lemma sample_connect:
  "Sockets_Connect (scripted_collab sel io) (world sample_machine)
     (socketDescriptor (params sample_machine 2)) pServerInfo sendTimeoutMs recvTimeoutMs
     = (SOCKETS_SUCCESS, 5, 1)"
  by (simp add: scripted_connect sample_machine_def)

section \<open>The claims\<close>

subsection \<open>Receive\<close>

text \<open>
  C1, as amended. When the preconditions of \<open>Plaintext_Recv\<close> hold, the readiness
  poll reports ready (select result > 0) and the read that follows returns 0 bytes, the
  call returns exactly -1, and the only events of the call are the poll and the one
  read: no log entry is issued, because the branch that escalates the zero-byte read
  and the branch that logs are the two arms of one \<open>if\<close> / \<open>else if\<close>.
\<close>

theorem recv_peer_closed_returns_error_unlogged:
  assumes "pNetworkContext = Some ctx" and "pParams (contexts s ctx) = Some pp"
    and "pBuffer = Some buf" and "0 < bytesToRecv"
    and "fd = socketDescriptor (params s pp)"
    and "zsock_select c (world s) (fd + 1) (Some {fd}) None None
           \<lparr>tv_sec = 0, tv_usec = 500000\<rparr> = (selectStatus, w1)"
    and "0 <s selectStatus"
    and "zsock_recv c w1 fd buf bytesToRecv 0 = (0, w2)"
  shows "returned (Plaintext_Recv c pNetworkContext pBuffer bytesToRecv s) = Inr (- 1)
       \<and> events_of s (Plaintext_Recv c pNetworkContext pBuffer bytesToRecv s)
           = [poll_readable fd, Ev_zsock_recv fd buf bytesToRecv 0]
       \<and> log_entries (events_of s (Plaintext_Recv c pNetworkContext pBuffer bytesToRecv s)) = []"
  by (simp add: Plaintext_Recv_ready_zero [OF assms] returned_def events_of_def
      new_events_def log_entries_def poll_readable_def)

theorem recv_peer_closed_returns_error_unlogged_witness:
  "zsock_select (scripted_collab 1 0) (world sample_machine) (3 + 1) (Some {3}) None None
       \<lparr>tv_sec = 0, tv_usec = 500000\<rparr> = (1, 1)
   \<and> zsock_recv (scripted_collab 1 0) 1 3 9 16 0 = (0, 2)
   \<and> returned (Plaintext_Recv (scripted_collab 1 0) (Some 1) (Some 9) 16 sample_machine)
       = Inr (- 1)
   \<and> events_of sample_machine
         (Plaintext_Recv (scripted_collab 1 0) (Some 1) (Some 9) 16 sample_machine)
       = [poll_readable 3, Ev_zsock_recv 3 9 16 0]
   \<and> log_entries (events_of sample_machine
         (Plaintext_Recv (scripted_collab 1 0) (Some 1) (Some 9) 16 sample_machine)) = []"
proof -
  note inst = recv_peer_closed_returns_error_unlogged
    [OF refl sample_context refl sample_length sample_descriptor sample_poll_readable
        one_is_positive sample_read]
  from inst sample_poll_readable [of 1 0] sample_read [of 1 0] show ?thesis
    by blast
qed

text \<open>
  C1 as the claim states it fails: on \<open>sample_machine\<close>, with a select that answers 1
  (ready) and a recv that answers 0, the call returns -1 and the events of the call hold
  no log entry.
\<close>

theorem recv_peer_closed_log_entry_counterexample:
  "zsock_select (scripted_collab 1 0) (world sample_machine) (3 + 1) (Some {3}) None None
       \<lparr>tv_sec = 0, tv_usec = 500000\<rparr> = (1, 1)
   \<and> zsock_recv (scripted_collab 1 0) 1 3 9 16 0 = (0, 2)
   \<and> returned (Plaintext_Recv (scripted_collab 1 0) (Some 1) (Some 9) 16 sample_machine)
       = Inr (- 1)
   \<and> log_entries (events_of sample_machine
         (Plaintext_Recv (scripted_collab 1 0) (Some 1) (Some 9) 16 sample_machine)) = []"
  by (simp add: Plaintext_Recv_def transport_defs scripted_collab_def sample_machine_def
      returned_def events_of_def new_events_def log_entries_def word_sless_alt)


text \<open>
  C2. When the preconditions hold and the readiness poll times out (select result 0),
  \<open>Plaintext_Recv\<close> returns exactly 0; the only event of the call is the poll, so no
  log entry is issued and no read is attempted.
\<close>

theorem recv_poll_timeout_returns_zero:
  assumes "pNetworkContext = Some ctx" and "pParams (contexts s ctx) = Some pp"
    and "pBuffer = Some buf" and "0 < bytesToRecv"
    and "fd = socketDescriptor (params s pp)"
    and "zsock_select c (world s) (fd + 1) (Some {fd}) None None
           \<lparr>tv_sec = 0, tv_usec = 500000\<rparr> = (0, w1)"
  shows "returned (Plaintext_Recv c pNetworkContext pBuffer bytesToRecv s) = Inr 0
       \<and> events_of s (Plaintext_Recv c pNetworkContext pBuffer bytesToRecv s) = [poll_readable fd]
       \<and> log_entries (events_of s (Plaintext_Recv c pNetworkContext pBuffer bytesToRecv s)) = []
       \<and> io_attempts (events_of s (Plaintext_Recv c pNetworkContext pBuffer bytesToRecv s)) = []"
  by (simp add: Plaintext_Recv_timeout [OF assms] returned_def events_of_def
      new_events_def log_entries_def io_attempts_def poll_readable_def)

theorem recv_poll_timeout_returns_zero_witness:
  "zsock_select (scripted_collab 0 7) (world sample_machine) (3 + 1) (Some {3}) None None
       \<lparr>tv_sec = 0, tv_usec = 500000\<rparr> = (0, 1)
   \<and> returned (Plaintext_Recv (scripted_collab 0 7) (Some 1) (Some 9) 16 sample_machine) = Inr 0
   \<and> events_of sample_machine
         (Plaintext_Recv (scripted_collab 0 7) (Some 1) (Some 9) 16 sample_machine)
       = [poll_readable 3]
   \<and> log_entries (events_of sample_machine
         (Plaintext_Recv (scripted_collab 0 7) (Some 1) (Some 9) 16 sample_machine)) = []
   \<and> io_attempts (events_of sample_machine
         (Plaintext_Recv (scripted_collab 0 7) (Some 1) (Some 9) 16 sample_machine)) = []"
proof -
  note inst = recv_poll_timeout_returns_zero
    [OF refl sample_context refl sample_length sample_descriptor sample_poll_readable [of 0 7],
     where buf = 9]
  from inst sample_poll_readable [of 0 7] show ?thesis
    by blast
qed

text \<open>
  C3. When the preconditions hold and the readiness poll itself fails (select result
  < 0), \<open>Plaintext_Recv\<close> returns exactly -1 and the call makes no read attempt on the
  socket.
\<close>

theorem recv_poll_error_returns_error_without_read:
  assumes "pNetworkContext = Some ctx" and "pParams (contexts s ctx) = Some pp"
    and "pBuffer = Some buf" and "0 < bytesToRecv"
    and "fd = socketDescriptor (params s pp)"
    and "zsock_select c (world s) (fd + 1) (Some {fd}) None None
           \<lparr>tv_sec = 0, tv_usec = 500000\<rparr> = (selectStatus, w1)"
    and "selectStatus <s 0"
  shows "returned (Plaintext_Recv c pNetworkContext pBuffer bytesToRecv s) = Inr (- 1)
       \<and> io_attempts (events_of s (Plaintext_Recv c pNetworkContext pBuffer bytesToRecv s)) = []"
  by (simp add: Plaintext_Recv_poll_error [OF assms] returned_def events_of_def
      new_events_def io_attempts_def poll_readable_def transport_error_entry_def)

theorem recv_poll_error_returns_error_without_read_witness:
  "zsock_select (scripted_collab (- 1) 7) (world sample_machine) (3 + 1) (Some {3}) None None
       \<lparr>tv_sec = 0, tv_usec = 500000\<rparr> = (- 1, 1)
   \<and> returned (Plaintext_Recv (scripted_collab (- 1) 7) (Some 1) (Some 9) 16 sample_machine)
       = Inr (- 1)
   \<and> io_attempts (events_of sample_machine
         (Plaintext_Recv (scripted_collab (- 1) 7) (Some 1) (Some 9) 16 sample_machine)) = []"
proof -
  note inst = recv_poll_error_returns_error_without_read
    [OF refl sample_context refl sample_length sample_descriptor
        sample_poll_readable [of "- 1" 7] minus_one_is_negative,
     where buf = 9]
  from inst sample_poll_readable [of "- 1" 7] show ?thesis
    by blast
qed

text \<open>
  C4. When the preconditions hold, the readiness poll reports ready and the read that
  follows returns a positive count N, \<open>Plaintext_Recv\<close> returns exactly N, whatever
  \<open>bytesToRecv\<close> is; the events of the call are the poll and that one read, so there
  is no retry and no log entry.
\<close>

theorem recv_ready_returns_count_read:
  assumes "pNetworkContext = Some ctx" and "pParams (contexts s ctx) = Some pp"
    and "pBuffer = Some buf" and "0 < bytesToRecv"
    and "fd = socketDescriptor (params s pp)"
    and "zsock_select c (world s) (fd + 1) (Some {fd}) None None
           \<lparr>tv_sec = 0, tv_usec = 500000\<rparr> = (selectStatus, w1)"
    and "0 <s selectStatus"
    and "zsock_recv c w1 fd buf bytesToRecv 0 = (N, w2)"
    and "0 <s N"
  shows "returned (Plaintext_Recv c pNetworkContext pBuffer bytesToRecv s) = Inr N
       \<and> events_of s (Plaintext_Recv c pNetworkContext pBuffer bytesToRecv s)
           = [poll_readable fd, Ev_zsock_recv fd buf bytesToRecv 0]
       \<and> log_entries (events_of s (Plaintext_Recv c pNetworkContext pBuffer bytesToRecv s)) = []"
  by (simp add: Plaintext_Recv_ready_positive [OF assms] returned_def events_of_def
      new_events_def log_entries_def poll_readable_def)

theorem recv_ready_returns_count_read_witness:
  "zsock_select (scripted_collab 1 7) (world sample_machine) (3 + 1) (Some {3}) None None
       \<lparr>tv_sec = 0, tv_usec = 500000\<rparr> = (1, 1)
   \<and> zsock_recv (scripted_collab 1 7) 1 3 9 16 0 = (7, 2)
   \<and> returned (Plaintext_Recv (scripted_collab 1 7) (Some 1) (Some 9) 16 sample_machine) = Inr 7
   \<and> events_of sample_machine
         (Plaintext_Recv (scripted_collab 1 7) (Some 1) (Some 9) 16 sample_machine)
       = [poll_readable 3, Ev_zsock_recv 3 9 16 0]
   \<and> log_entries (events_of sample_machine
         (Plaintext_Recv (scripted_collab 1 7) (Some 1) (Some 9) 16 sample_machine)) = []"
proof -
  note inst = recv_ready_returns_count_read
    [OF refl sample_context refl sample_length sample_descriptor sample_poll_readable
        one_is_positive sample_read seven_is_positive]
  from inst sample_poll_readable [of 1 7] sample_read [of 1 7] show ?thesis
    by blast
qed

subsection \<open>The wait budget of receive and send\<close>

text \<open>
  C5. Whenever the preconditions hold, a call of \<open>Plaintext_Recv\<close> and a call of
  \<open>Plaintext_Send\<close> make exactly one select call, and the timeout handed to it is
  \<open>tv_sec = 0\<close>, \<open>tv_usec = 500000\<close>. This holds in any machine state \<open>s\<close>, and
  in particular in the state \<open>s1\<close> that \<open>Plaintext_Connect\<close> leaves behind, whatever
  \<open>sendTimeoutMs\<close> and \<open>recvTimeoutMs\<close> it was given and whatever the socket layer
  did with them.
\<close>

theorem poll_budget_is_500ms:
  assumes "pNetworkContext = Some ctx" and "pParams (contexts s ctx) = Some pp"
    and "pBuffer = Some buf" and "0 < n"
    and "s1 = snd (Plaintext_Connect c pNetworkContext pServerInfo sendTimeoutMs recvTimeoutMs s)"
  shows "select_budgets (events_of s (Plaintext_Recv c pNetworkContext pBuffer n s))
           = [\<lparr>tv_sec = 0, tv_usec = 500000\<rparr>]
       \<and> select_budgets (events_of s (Plaintext_Send c pNetworkContext pBuffer n s))
           = [\<lparr>tv_sec = 0, tv_usec = 500000\<rparr>]
       \<and> select_budgets (events_of s1 (Plaintext_Recv c pNetworkContext pBuffer n s1))
           = [\<lparr>tv_sec = 0, tv_usec = 500000\<rparr>]
       \<and> select_budgets (events_of s1 (Plaintext_Send c pNetworkContext pBuffer n s1))
           = [\<lparr>tv_sec = 0, tv_usec = 500000\<rparr>]"
proof -
  have ctx1: "pParams (contexts s1 ctx) = Some pp"
    using assms(2,5) by (simp add: Plaintext_Connect_contexts)
  have recv: "select_budgets (events_of t (Plaintext_Recv c pNetworkContext pBuffer n t))
                = [\<lparr>tv_sec = 0, tv_usec = 500000\<rparr>]"
    if "pParams (contexts t ctx) = Some pp" for t
    using Plaintext_Recv_returns [OF assms(1) that assms(3,4), of c]
    by (auto simp add: events_of_def)
  have send: "select_budgets (events_of t (Plaintext_Send c pNetworkContext pBuffer n t))
                = [\<lparr>tv_sec = 0, tv_usec = 500000\<rparr>]"
    if "pParams (contexts t ctx) = Some pp" for t
    using Plaintext_Send_returns [OF assms(1) that assms(3,4), of c]
    by (auto simp add: events_of_def)
  from recv [OF assms(2)] send [OF assms(2)] recv [OF ctx1] send [OF ctx1]
  show ?thesis by blast
qed

theorem poll_budget_is_500ms_witness:
  "select_budgets (events_of sample_machine
       (Plaintext_Recv (scripted_collab 1 7) (Some 1) (Some 9) 16 sample_machine))
     = [\<lparr>tv_sec = 0, tv_usec = 500000\<rparr>]
   \<and> select_budgets (events_of sample_machine
       (Plaintext_Send (scripted_collab 1 7) (Some 1) (Some 9) 16 sample_machine))
     = [\<lparr>tv_sec = 0, tv_usec = 500000\<rparr>]
   \<and> select_budgets
       (events_of (snd (Plaintext_Connect (scripted_collab 1 7) (Some 1) None 2000 3000 sample_machine))
          (Plaintext_Recv (scripted_collab 1 7) (Some 1) (Some 9) 16
             (snd (Plaintext_Connect (scripted_collab 1 7) (Some 1) None 2000 3000 sample_machine))))
     = [\<lparr>tv_sec = 0, tv_usec = 500000\<rparr>]
   \<and> select_budgets
       (events_of (snd (Plaintext_Connect (scripted_collab 1 7) (Some 1) None 2000 3000 sample_machine))
          (Plaintext_Send (scripted_collab 1 7) (Some 1) (Some 9) 16
             (snd (Plaintext_Connect (scripted_collab 1 7) (Some 1) None 2000 3000 sample_machine))))
     = [\<lparr>tv_sec = 0, tv_usec = 500000\<rparr>]"
  by (rule poll_budget_is_500ms [OF refl sample_context refl sample_length refl])

subsection \<open>Send against receive\<close>

text \<open>
  C6. \<open>Plaintext_Send\<close> is \<open>Plaintext_Recv\<close> with writability substituted for
  readability and write for read: it equals \<open>Send_as_mirrored_Recv\<close> on every input.
  And whenever the poll for writability answers what the poll for readability answers
  and the write answers what the read answers, both calls return the same value and
  issue the same log entries; that value is the count when the poll reports ready and
  the count is not 0, -1 when it reports ready and the count is 0, -1 when the poll
  fails, and 0 when it times out.
\<close>

theorem send_mirrors_recv:
  assumes "pNetworkContext = Some ctx" and "pParams (contexts s ctx) = Some pp"
    and "pBuffer = Some buf" and "0 < n"
    and "fd = socketDescriptor (params s pp)"
    and "zsock_select c (world s) (fd + 1) (Some {fd}) None None
           \<lparr>tv_sec = 0, tv_usec = 500000\<rparr> = (pollResult, w1)"
    and "zsock_recv c w1 fd buf n 0 = (ioResult, w2)"
    and "zsock_select c (world s) (fd + 1) None (Some {fd}) None
           \<lparr>tv_sec = 0, tv_usec = 500000\<rparr> = (pollResult, w1)"
    and "zsock_send c w1 fd buf n 0 = (ioResult, w2)"
  shows "Plaintext_Send c pNetworkContext pBuffer n s
           = Send_as_mirrored_Recv c pNetworkContext pBuffer n s
       \<and> returned (Plaintext_Send c pNetworkContext pBuffer n s)
           = returned (Plaintext_Recv c pNetworkContext pBuffer n s)
       \<and> log_entries (events_of s (Plaintext_Send c pNetworkContext pBuffer n s))
           = log_entries (events_of s (Plaintext_Recv c pNetworkContext pBuffer n s))
       \<and> returned (Plaintext_Send c pNetworkContext pBuffer n s)
           = Inr (if 0 <s pollResult then (if ioResult = 0 then - 1 else ioResult)
                  else if pollResult <s 0 then - 1 else 0)"
proof -
  note recv = Plaintext_Recv_table [OF assms(1-7)]
  note send = Plaintext_Send_table [OF assms(1-5) assms(8,9)]
  have mirror: "Plaintext_Send c pNetworkContext pBuffer n s
                  = Send_as_mirrored_Recv c pNetworkContext pBuffer n s"
    by (rule Plaintext_Send_mirror)
  have same_value: "returned (Plaintext_Send c pNetworkContext pBuffer n s)
                      = returned (Plaintext_Recv c pNetworkContext pBuffer n s)"
    by (simp only: recv send)
  have same_log: "log_entries (events_of s (Plaintext_Send c pNetworkContext pBuffer n s))
                    = log_entries (events_of s (Plaintext_Recv c pNetworkContext pBuffer n s))"
    by (simp only: recv send)
  from mirror same_value same_log send(1) show ?thesis
    by blast
qed

theorem send_mirrors_recv_witness:
  "Plaintext_Send (scripted_collab 1 0) (Some 1) (Some 9) 16 sample_machine
     = Send_as_mirrored_Recv (scripted_collab 1 0) (Some 1) (Some 9) 16 sample_machine
   \<and> returned (Plaintext_Send (scripted_collab 1 0) (Some 1) (Some 9) 16 sample_machine)
     = returned (Plaintext_Recv (scripted_collab 1 0) (Some 1) (Some 9) 16 sample_machine)
   \<and> log_entries (events_of sample_machine
        (Plaintext_Send (scripted_collab 1 0) (Some 1) (Some 9) 16 sample_machine))
     = log_entries (events_of sample_machine
        (Plaintext_Recv (scripted_collab 1 0) (Some 1) (Some 9) 16 sample_machine))
   \<and> returned (Plaintext_Send (scripted_collab 1 0) (Some 1) (Some 9) 16 sample_machine)
     = Inr (- 1)"
proof -
  note inst = send_mirrors_recv
    [OF refl sample_context refl sample_length sample_descriptor sample_poll_readable
        sample_read sample_poll_writable sample_write, of 1 0]
  have "returned (Plaintext_Send (scripted_collab 1 0) (Some 1) (Some 9) 16 sample_machine)
          = Inr (- 1)"
    using conjunct2 [OF conjunct2 [OF conjunct2 [OF inst]]] one_is_positive by simp
  with inst show ?thesis
    by blast
qed

subsection \<open>Connect and disconnect\<close>

text \<open>
  C7. When the context pointer is NULL, or the parameter block pointer of the context is
  NULL, \<open>Plaintext_Connect\<close> and \<open>Plaintext_Disconnect\<close> return
  \<open>SOCKETS_INVALID_PARAMETER\<close>; the machine afterwards is the machine before with
  one more event, the \<open>LogError\<close> of the parameter check. So no routine of the socket
  layer is called (no \<open>Sockets_Connect\<close>, no \<open>Sockets_Disconnect\<close>) and the world
  of the collaborators is untouched.
\<close>

theorem connect_disconnect_reject_null:
  assumes "pNetworkContext = None
           \<or> (\<exists>ctx. pNetworkContext = Some ctx \<and> pParams (contexts s ctx) = None)"
  shows "Plaintext_Connect c pNetworkContext pServerInfo sendTimeoutMs recvTimeoutMs s
           = (SOCKETS_INVALID_PARAMETER,
              s\<lparr>trace := trace s
                   @ [EvLogError ''Parameter check failed: pNetworkContext is NULL.'' []]\<rparr>)
       \<and> Plaintext_Disconnect c pNetworkContext s
           = (SOCKETS_INVALID_PARAMETER,
              s\<lparr>trace := trace s
                   @ [EvLogError ''Parameter check failed: pNetworkContext is NULL.'' []]\<rparr>)
       \<and> socket_calls (new_events s
             (snd (Plaintext_Connect c pNetworkContext pServerInfo sendTimeoutMs recvTimeoutMs s)))
           = []
       \<and> socket_calls (new_events s (snd (Plaintext_Disconnect c pNetworkContext s))) = []
       \<and> world (snd (Plaintext_Connect c pNetworkContext pServerInfo sendTimeoutMs recvTimeoutMs s))
           = world s
       \<and> world (snd (Plaintext_Disconnect c pNetworkContext s)) = world s"
  using assms
  by (auto simp add: Plaintext_Connect_def Plaintext_Disconnect_def LogError_def emit_def
      socket_calls_def new_events_def)

theorem connect_disconnect_reject_null_witness:
  "fst (Plaintext_Connect (scripted_collab 1 7) None None 2000 3000 sample_machine)
     = SOCKETS_INVALID_PARAMETER
   \<and> fst (Plaintext_Disconnect (scripted_collab 1 7) None sample_machine)
     = SOCKETS_INVALID_PARAMETER
   \<and> fst (Plaintext_Connect (scripted_collab 1 7) (Some 0) None 2000 3000 sample_machine)
     = SOCKETS_INVALID_PARAMETER
   \<and> fst (Plaintext_Disconnect (scripted_collab 1 7) (Some 0) sample_machine)
     = SOCKETS_INVALID_PARAMETER
   \<and> socket_calls (new_events sample_machine
        (snd (Plaintext_Connect (scripted_collab 1 7) (Some 0) None 2000 3000 sample_machine)))
     = []
   \<and> socket_calls (new_events sample_machine
        (snd (Plaintext_Disconnect (scripted_collab 1 7) (Some 0) sample_machine)))
     = []"
proof -
  have null_context: "(None :: addr option) = None
      \<or> (\<exists>ctx. (None :: addr option) = Some ctx \<and> pParams (contexts sample_machine ctx) = None)"
    by simp
  have null_params: "Some 0 = None
      \<or> (\<exists>ctx. Some 0 = Some ctx \<and> pParams (contexts sample_machine ctx) = None)"
    using sample_null_params by simp
  note a = connect_disconnect_reject_null
    [OF null_context, of "scripted_collab 1 7" None 2000 3000]
  note b = connect_disconnect_reject_null
    [OF null_params, of "scripted_collab 1 7" None 2000 3000]
  from a b show ?thesis
    by (simp add: socket_calls_def new_events_def)
qed

text \<open>
  C8. With a non-NULL context that holds a non-NULL parameter block,
  \<open>Plaintext_Connect\<close> makes exactly one call, to \<open>Sockets_Connect\<close>, with the
  address of the \<open>socketDescriptor\<close> member of that parameter block, the server
  information and the two timeouts as it received them; it returns the status of that
  call, and the descriptor the call stored is the one the member holds afterwards.
\<close>

theorem connect_delegates_once:
  assumes "pNetworkContext = Some ctx" and "pParams (contexts s ctx) = Some pp"
    and "Sockets_Connect c (world s) (socketDescriptor (params s pp)) pServerInfo
           sendTimeoutMs recvTimeoutMs = (status, fd, w)"
  shows "fst (Plaintext_Connect c pNetworkContext pServerInfo sendTimeoutMs recvTimeoutMs s)
           = status
       \<and> new_events s
           (snd (Plaintext_Connect c pNetworkContext pServerInfo sendTimeoutMs recvTimeoutMs s))
           = [EvSockets_Connect (SocketDescriptorOf pp) pServerInfo sendTimeoutMs recvTimeoutMs]
       \<and> world (snd (Plaintext_Connect c pNetworkContext pServerInfo sendTimeoutMs recvTimeoutMs s))
           = w
       \<and> socketDescriptor
           (params (snd (Plaintext_Connect c pNetworkContext pServerInfo sendTimeoutMs
                           recvTimeoutMs s)) pp)
           = fd"
  using assms
  by (simp add: Plaintext_Connect_def call_Sockets_Connect_def emit_def new_events_def)

theorem connect_delegates_once_witness:
  "fst (Plaintext_Connect (scripted_collab 1 7) (Some 1) (Some 8) 2000 3000 sample_machine)
     = SOCKETS_SUCCESS
   \<and> new_events sample_machine
       (snd (Plaintext_Connect (scripted_collab 1 7) (Some 1) (Some 8) 2000 3000 sample_machine))
     = [EvSockets_Connect (SocketDescriptorOf 2) (Some 8) 2000 3000]
   \<and> world (snd (Plaintext_Connect (scripted_collab 1 7) (Some 1) (Some 8) 2000 3000
                    sample_machine))
     = 1
   \<and> socketDescriptor
       (params (snd (Plaintext_Connect (scripted_collab 1 7) (Some 1) (Some 8) 2000 3000
                       sample_machine)) 2)
     = 5"
  by (rule connect_delegates_once [OF refl sample_context sample_connect])

subsection \<open>What the calls leave unchanged\<close>

text \<open>
  C9. With the preconditions satisfied, \<open>Plaintext_Recv\<close> and \<open>Plaintext_Send\<close>
  return, and they leave every network context and every parameter block (so the
  socket descriptor in it) as it was; \<open>Plaintext_Disconnect\<close> does the same. Only
  \<open>Plaintext_Connect\<close> changes a caller-owned object: it leaves the contexts as they
  were and every parameter block but the one the context points to.
\<close>

theorem recv_send_disconnect_keep_context:
  assumes "pNetworkContext = Some ctx" and "pParams (contexts s ctx) = Some pp"
    and "pBuffer = Some buf" and "0 < n"
  shows "(\<exists>r s'. Plaintext_Recv c pNetworkContext pBuffer n s = Inr (r, s')
            \<and> contexts s' = contexts s \<and> params s' = params s)
       \<and> (\<exists>r s'. Plaintext_Send c pNetworkContext pBuffer n s = Inr (r, s')
            \<and> contexts s' = contexts s \<and> params s' = params s)
       \<and> contexts (snd (Plaintext_Disconnect c pNetworkContext s)) = contexts s
       \<and> params (snd (Plaintext_Disconnect c pNetworkContext s)) = params s
       \<and> contexts (snd (Plaintext_Connect c pNetworkContext pServerInfo sendTimeoutMs
                           recvTimeoutMs s)) = contexts s
       \<and> (\<forall>a. a \<noteq> pp \<longrightarrow>
              params (snd (Plaintext_Connect c pNetworkContext pServerInfo sendTimeoutMs
                             recvTimeoutMs s)) a = params s a)"
proof -
  have recv: "\<exists>r s'. Plaintext_Recv c pNetworkContext pBuffer n s = Inr (r, s')
                \<and> contexts s' = contexts s \<and> params s' = params s"
    using Plaintext_Recv_returns [OF assms, of c] by blast
  have send: "\<exists>r s'. Plaintext_Send c pNetworkContext pBuffer n s = Inr (r, s')
                \<and> contexts s' = contexts s \<and> params s' = params s"
    using Plaintext_Send_returns [OF assms, of c] by blast
  have connect: "\<forall>a. a \<noteq> pp \<longrightarrow>
                   params (snd (Plaintext_Connect c pNetworkContext pServerInfo sendTimeoutMs
                                  recvTimeoutMs s)) a = params s a"
    using assms(1,2)
    by (simp add: Plaintext_Connect_def call_Sockets_Connect_def emit_def split: prod.splits)
  from recv send connect Plaintext_Disconnect_frame [of c pNetworkContext s]
    Plaintext_Connect_contexts [of c pNetworkContext pServerInfo sendTimeoutMs recvTimeoutMs s]
  show ?thesis
    by blast
qed

theorem recv_send_disconnect_keep_context_witness:
  "(\<exists>r s'. Plaintext_Recv (scripted_collab 1 7) (Some 1) (Some 9) 16 sample_machine = Inr (r, s')
       \<and> contexts s' = contexts sample_machine \<and> params s' = params sample_machine)
   \<and> (\<exists>r s'. Plaintext_Send (scripted_collab 1 7) (Some 1) (Some 9) 16 sample_machine = Inr (r, s')
       \<and> contexts s' = contexts sample_machine \<and> params s' = params sample_machine)
   \<and> contexts (snd (Plaintext_Disconnect (scripted_collab 1 7) (Some 1) sample_machine))
       = contexts sample_machine
   \<and> params (snd (Plaintext_Disconnect (scripted_collab 1 7) (Some 1) sample_machine))
       = params sample_machine"
proof -
  note inst = recv_send_disconnect_keep_context
    [OF refl sample_context refl sample_length,
     where c = "scripted_collab 1 7" and buf = 9 and pServerInfo = None
       and sendTimeoutMs = 2000 and recvTimeoutMs = 3000]
  from inst show ?thesis
    by blast
qed

subsection \<open>A failed poll is logged\<close>

text \<open>
  C10. With the preconditions satisfied, when the readiness poll of \<open>Plaintext_Recv\<close>
  fails (select result < 0), the events of the call are the poll and then one
  transport-error log entry with the value of errno after the poll; no read is
  attempted. The same holds for \<open>Plaintext_Send\<close> and its poll for writability, with
  no write attempted.
\<close>

theorem poll_error_is_logged:
  assumes "pNetworkContext = Some ctx" and "pParams (contexts s ctx) = Some pp"
    and "pBuffer = Some buf" and "0 < n"
    and "fd = socketDescriptor (params s pp)"
    and "zsock_select c (world s) (fd + 1) (Some {fd}) None None
           \<lparr>tv_sec = 0, tv_usec = 500000\<rparr> = (readStatus, wr)"
    and "zsock_select c (world s) (fd + 1) None (Some {fd}) None
           \<lparr>tv_sec = 0, tv_usec = 500000\<rparr> = (writeStatus, ww)"
  shows "(readStatus <s 0 \<longrightarrow>
            events_of s (Plaintext_Recv c pNetworkContext pBuffer n s)
              = [poll_readable fd, transport_error_entry (errno c wr)])
       \<and> (writeStatus <s 0 \<longrightarrow>
            events_of s (Plaintext_Send c pNetworkContext pBuffer n s)
              = [poll_writable fd, transport_error_entry (errno c ww)])"
proof (intro conjI impI)
  assume "readStatus <s 0"
  from Plaintext_Recv_poll_error [OF assms(1-6) this]
  show "events_of s (Plaintext_Recv c pNetworkContext pBuffer n s)
          = [poll_readable fd, transport_error_entry (errno c wr)]"
    by (simp add: events_of_def new_events_def)
next
  assume "writeStatus <s 0"
  from Plaintext_Send_poll_error [OF assms(1-5) assms(7) this]
  show "events_of s (Plaintext_Send c pNetworkContext pBuffer n s)
          = [poll_writable fd, transport_error_entry (errno c ww)]"
    by (simp add: events_of_def new_events_def)
qed

theorem poll_error_is_logged_witness:
  "events_of sample_machine
       (Plaintext_Recv (scripted_collab (- 1) 7) (Some 1) (Some 9) 16 sample_machine)
     = [poll_readable 3, transport_error_entry 104]
   \<and> events_of sample_machine
       (Plaintext_Send (scripted_collab (- 1) 7) (Some 1) (Some 9) 16 sample_machine)
     = [poll_writable 3, transport_error_entry 104]"
proof -
  note inst = poll_error_is_logged
    [OF refl sample_context refl sample_length sample_descriptor
        sample_poll_readable [of "- 1" 7] sample_poll_writable [of "- 1" 7], where buf = 9]
  from inst minus_one_is_negative show ?thesis
    by (simp add: scripted_errno)
qed

end
